theory Spec2Isabelle
  imports Main "HOL-Library.Sublist"
begin

section \<open>Python values and the library functions the code relies on\<close>

text \<open>
  A decoded JSON body is a Python value: \<open>None\<close>, a bool, an int, a float, a str, a list
  or a dict. A float is identified by its \<open>repr\<close>, a dict is the list of its items in
  insertion order (its keys are distinct). Strings are sequences of bytes.
\<close>

datatype json =
    JNull
  | JBool bool
  | JInt int
  | JFloat string
  | JStr string
  | JArr "json list"
  | JObj "(string \<times> json) list"

text \<open>\<open>if v:\<close> on such a value.\<close>

fun truthy :: "json \<Rightarrow> bool" where
  "truthy JNull = False"
| "truthy (JBool b) = b"
| "truthy (JInt i) = (i \<noteq> 0)"
| "truthy (JFloat r) = (r \<noteq> ''0.0'' \<and> r \<noteq> ''-0.0'')"
| "truthy (JStr s) = (s \<noteq> [])"
| "truthy (JArr xs) = (xs \<noteq> [])"
| "truthy (JObj kvs) = (kvs \<noteq> [])"

text \<open>\<open>if x:\<close> on an optional string and on an optional integer of a request.\<close>

definition truthy_str :: "string option \<Rightarrow> bool" where
  "truthy_str x = (case x of None \<Rightarrow> False | Some s \<Rightarrow> s \<noteq> [])"

definition truthy_int :: "int option \<Rightarrow> bool" where
  "truthy_int x = (case x of None \<Rightarrow> False | Some i \<Rightarrow> i \<noteq> 0)"

text \<open>
  Two functions of the Python runtime are taken as they are, for every string and value:
  \<open>str.lower\<close>, and \<open>str\<close> on a value that is not a string (what an f-string pastes for it).
  Every function of the model that needs them receives them as its first argument.
\<close>

record python =
  str_lower :: "string \<Rightarrow> string"
  str_of :: "json \<Rightarrow> string"

text \<open>\<open>f"{v}"\<close>: a string is pasted as it is.\<close>

definition fstring :: "python \<Rightarrow> json \<Rightarrow> string" where
  "fstring py v = (case v of JStr s \<Rightarrow> s | _ \<Rightarrow> str_of py v)"

text \<open>
  Every exception the modelled code can raise. \<open>TransportError\<close> is what httpx raises when
  a request gets no response, \<open>JSONDecodeError\<close> what \<open>response.json()\<close> raises on a body
  that is not JSON, \<open>ValidationError\<close> what building a \<open>PurchaseResponse\<close> raises,
  \<open>PyMongoError\<close> a failed database operation.
\<close>

datatype exn =
    NoPetAvailable
  | ValueError string
  | KeyError
  | TypeError
  | AttributeError
  | IndexError
  | TransportError
  | JSONDecodeError
  | ValidationError
  | PyMongoError

text \<open>
  \<open>for pt in v\<close>: the elements of a list, the keys of a dict, the characters of a string
  (each of them a string again).
\<close>

definition iterate :: "json \<Rightarrow> exn + json list" where
  "iterate v =
     (case v of
        JArr xs \<Rightarrow> Inr xs
      | JObj kvs \<Rightarrow> Inr (map (\<lambda>kv. JStr (fst kv)) kvs)
      | JStr s \<Rightarrow> Inr (map (\<lambda>c. JStr [c]) s)
      | _ \<Rightarrow> Inl TypeError)"

text \<open>\<open>v.get(key, default)\<close>: only a dict has the method.\<close>

definition dict_get :: "json \<Rightarrow> string \<Rightarrow> json \<Rightarrow> exn + json" where
  "dict_get v key dflt =
     (case v of
        JObj kvs \<Rightarrow> Inr (case map_of kvs key of None \<Rightarrow> dflt | Some x \<Rightarrow> x)
      | _ \<Rightarrow> Inl AttributeError)"

text \<open>\<open>v[key]\<close> with a string key.\<close>

definition subscript :: "json \<Rightarrow> string \<Rightarrow> exn + json" where
  "subscript v key =
     (case v of
        JObj kvs \<Rightarrow> (case map_of kvs key of None \<Rightarrow> Inl KeyError | Some x \<Rightarrow> Inr x)
      | _ \<Rightarrow> Inl TypeError)"

text \<open>
  \<open>random.choice(v)\<close>: \<open>v[i]\<close> for a drawn index \<open>i\<close> below \<open>len(v)\<close>; the draw \<open>rnd\<close>
  selects the index. A dict has no integer key; a string yields one of its characters.
\<close>

definition random_choice :: "nat \<Rightarrow> json \<Rightarrow> exn + json" where
  "random_choice rnd v =
     (case v of
        JArr xs \<Rightarrow> (if xs = [] then Inl IndexError else Inr (xs ! (rnd mod length xs)))
      | JStr s \<Rightarrow> (if s = [] then Inl IndexError else Inr (JStr [s ! (rnd mod length s)]))
      | JObj kvs \<Rightarrow> (if kvs = [] then Inl IndexError else Inl KeyError)
      | _ \<Rightarrow> Inl TypeError)"

section \<open>The order service's data model (models/purchase.py, purchase_service.py)\<close>

text \<open>
  The three pydantic models share field names, so each record prefixes its fields.
  \<open>FoundPet\<close> is a plain dataclass: its id and name hold whatever the inventory sent.
\<close>

record purchase_request =
  req_purchaser :: string
  req_pet_type :: string
  req_store :: "int option"
  req_pet_name :: "string option"

record purchase_response =
  resp_purchaser :: string
  resp_pet_type :: string
  resp_store :: int
  resp_pet_name :: string
  resp_purchase_id :: string

record transaction =
  txn_purchaser :: string
  txn_pet_type :: string
  txn_store :: int
  txn_purchase_id :: string

record found_pet =
  fp_store :: int
  fp_pet_type_id :: json
  fp_pet_type_name :: string
  fp_name :: json

text \<open>
  \<open>PurchaseRequest.validate_pet_name_requires_store\<close>: both tests are truthiness tests,
  as written in the source.
\<close>

definition validate_pet_name_requires_store :: "purchase_request \<Rightarrow> exn + purchase_request" where
  "validate_pet_name_requires_store self =
     (if truthy_str (req_pet_name self) \<and> \<not> truthy_int (req_store self)
      then Inl (ValueError ''pet-name can only be provided if store is provided'')
      else if (case req_store self of None \<Rightarrow> False | Some s \<Rightarrow> s \<notin> set [1, 2])
      then Inl (ValueError ''store must be 1 or 2'')
      else Inr self)"

section \<open>The inventory backends as seen by the client (pet_store_client.py)\<close>

text \<open>
  What one HTTP call can produce: a response with its status code and its body (\<open>None\<close>
  when the body is not JSON), or no response at all, where httpx raises.
\<close>

datatype http_outcome = Response nat "json option" | NoResponse

datatype http_method = GET | DELETE

text \<open>
  The backends, as the outcome they give to a method and a URL. During one purchase no
  method and URL are used twice, so a function describes any behaviour of the backends,
  also one where a pet that was fetched can no longer be deleted.
\<close>

type_synonym inventories = "http_method \<Rightarrow> string \<Rightarrow> http_outcome"

text \<open>
  The requests the client sends, logged in order by every operation: the store whose
  base URL was used, and the texts pasted into the path.
\<close>

datatype http_request =
    GET_pet_types int
  | GET_pets int string
  | GET_pet int string string
  | DELETE_pet int string string


definition PET_STORE_URLS :: "int \<rightharpoonup> string" where
  "PET_STORE_URLS = [1 \<mapsto> ''http://pet-store1:8000'', 2 \<mapsto> ''http://pet-store2:8000'']"

text \<open>The three f-strings that build the URLs; nothing is escaped.\<close>

definition pet_types_url :: "string \<Rightarrow> string" where
  "pet_types_url base = base @ ''/pet-types''"

definition pets_url :: "string \<Rightarrow> string \<Rightarrow> string" where
  "pets_url base pet_type_id = base @ ''/pet-types/'' @ pet_type_id @ ''/pets''"

definition pet_url :: "string \<Rightarrow> string \<Rightarrow> string \<Rightarrow> string" where
  "pet_url base pet_type_id name = base @ ''/pet-types/'' @ pet_type_id @ ''/pets/'' @ name"

type_synonym 'a client_result = "(exn + 'a) \<times> http_request list"

definition get_pet_types :: "inventories \<Rightarrow> int \<Rightarrow> json client_result" where
  "get_pet_types env store =
     (case PET_STORE_URLS store of
        None \<Rightarrow> (Inl KeyError, [])
      | Some base \<Rightarrow>
          (case env GET (pet_types_url base) of
             NoResponse \<Rightarrow> (Inl TransportError, [GET_pet_types store])
           | Response status_code body \<Rightarrow>
               (if status_code = 200
                then (case body of
                        None \<Rightarrow> (Inl JSONDecodeError, [GET_pet_types store])
                      | Some v \<Rightarrow> (Inr v, [GET_pet_types store]))
                else (Inr (JArr []), [GET_pet_types store]))))"

text \<open>
  The \<open>for pt in pet_types\<close> loop of \<open>find_pet_type_id\<close>; falling out of it returns
  \<open>None\<close>.
\<close>

fun find_pet_type_id_loop :: "python \<Rightarrow> string \<Rightarrow> json list \<Rightarrow> exn + json" where
  "find_pet_type_id_loop py pet_type_lower [] = Inr JNull"
| "find_pet_type_id_loop py pet_type_lower (pt # pts) =
     (case dict_get pt ''type'' (JStr []) of
        Inl e \<Rightarrow> Inl e
      | Inr t \<Rightarrow>
          (case t of
             JStr s \<Rightarrow>
               (if str_lower py s = pet_type_lower
                then dict_get pt ''id'' JNull
                else find_pet_type_id_loop py pet_type_lower pts)
           | _ \<Rightarrow> Inl AttributeError))"

definition find_pet_type_id ::
  "python \<Rightarrow> inventories \<Rightarrow> int \<Rightarrow> string \<Rightarrow> json client_result" where
  "find_pet_type_id py env store pet_type_name =
     (case get_pet_types env store of
        (Inl e, c) \<Rightarrow> (Inl e, c)
      | (Inr pet_types, c) \<Rightarrow>
          (case iterate pet_types of
             Inl e \<Rightarrow> (Inl e, c)
           | Inr pts \<Rightarrow> (find_pet_type_id_loop py (str_lower py pet_type_name) pts, c)))"

definition get_pets_for_type ::
  "python \<Rightarrow> inventories \<Rightarrow> int \<Rightarrow> json \<Rightarrow> json client_result" where
  "get_pets_for_type py env store pet_type_id =
     (case PET_STORE_URLS store of
        None \<Rightarrow> (Inl KeyError, [])
      | Some base \<Rightarrow>
          (case env GET (pets_url base (fstring py pet_type_id)) of
             NoResponse \<Rightarrow> (Inl TransportError, [GET_pets store (fstring py pet_type_id)])
           | Response status_code body \<Rightarrow>
               (if status_code = 200
                then (case body of
                        None \<Rightarrow> (Inl JSONDecodeError, [GET_pets store (fstring py pet_type_id)])
                      | Some v \<Rightarrow> (Inr v, [GET_pets store (fstring py pet_type_id)]))
                else (Inr (JArr []), [GET_pets store (fstring py pet_type_id)]))))"

definition get_pet ::
  "python \<Rightarrow> inventories \<Rightarrow> int \<Rightarrow> json \<Rightarrow> json \<Rightarrow> json client_result" where
  "get_pet py env store pet_type_id name =
     (case PET_STORE_URLS store of
        None \<Rightarrow> (Inl KeyError, [])
      | Some base \<Rightarrow>
          (case env GET (pet_url base (fstring py pet_type_id) (fstring py name)) of
             NoResponse \<Rightarrow>
               (Inl TransportError, [GET_pet store (fstring py pet_type_id) (fstring py name)])
           | Response status_code body \<Rightarrow>
               (if status_code = 200
                then (case body of
                        None \<Rightarrow>
                          (Inl JSONDecodeError,
                           [GET_pet store (fstring py pet_type_id) (fstring py name)])
                      | Some v \<Rightarrow>
                          (Inr v, [GET_pet store (fstring py pet_type_id) (fstring py name)]))
                else (Inr JNull, [GET_pet store (fstring py pet_type_id) (fstring py name)]))))"

definition delete_pet ::
  "python \<Rightarrow> inventories \<Rightarrow> int \<Rightarrow> json \<Rightarrow> json \<Rightarrow> bool client_result" where
  "delete_pet py env store pet_type_id name =
     (case PET_STORE_URLS store of
        None \<Rightarrow> (Inl KeyError, [])
      | Some base \<Rightarrow>
          (case env DELETE (pet_url base (fstring py pet_type_id) (fstring py name)) of
             NoResponse \<Rightarrow>
               (Inl TransportError, [DELETE_pet store (fstring py pet_type_id) (fstring py name)])
           | Response status_code body \<Rightarrow>
               (Inr (status_code \<in> set [200, 204]),
                [DELETE_pet store (fstring py pet_type_id) (fstring py name)])))"

section \<open>The pet locator (find_available_pet)\<close>

text \<open>
  \<open>[request.store] if request.store else [1, 2]\<close>. Here and in the loop body a request
  field is read right after its truthiness test, so the \<open>None\<close> branch of that read is
  never taken.
\<close>

definition stores_to_check :: "purchase_request \<Rightarrow> int list" where
  "stores_to_check request =
     (if truthy_int (req_store request)
      then (case req_store request of None \<Rightarrow> [] | Some s \<Rightarrow> [s])
      else [1, 2])"

text \<open>
  The body of the loop over \<open>stores_to_check\<close>, for one store: \<open>Inr None\<close> is falling
  through to the next iteration (by \<open>continue\<close> or at the end of the body), \<open>Inr (Some pet)\<close>
  is \<open>return FoundPet(...)\<close>.
\<close>

definition probe_store ::
  "python \<Rightarrow> inventories \<Rightarrow> nat \<Rightarrow> purchase_request \<Rightarrow> int \<Rightarrow> found_pet option client_result" where
  "probe_store py env rnd request store =
     (case find_pet_type_id py env store (req_pet_type request) of
        (Inl e, c) \<Rightarrow> (Inl e, c)
      | (Inr pet_type_id, c) \<Rightarrow>
          (if \<not> truthy pet_type_id then (Inr None, c)
           else if truthy_str (req_pet_name request)
           then (case req_pet_name request of
                   None \<Rightarrow> (Inr None, c)
                 | Some name \<Rightarrow>
                     (case get_pet py env store pet_type_id (JStr name) of
                        (Inl e, c') \<Rightarrow> (Inl e, c @ c')
                      | (Inr pet, c') \<Rightarrow>
                          (if truthy pet
                           then (case subscript pet ''name'' of
                                   Inl e \<Rightarrow> (Inl e, c @ c')
                                 | Inr n \<Rightarrow>
                                     (Inr (Some \<lparr>fp_store = store, fp_pet_type_id = pet_type_id,
                                                 fp_pet_type_name = req_pet_type request,
                                                 fp_name = n\<rparr>), c @ c'))
                           else (Inr None, c @ c'))))
           else (case get_pets_for_type py env store pet_type_id of
                   (Inl e, c') \<Rightarrow> (Inl e, c @ c')
                 | (Inr pets, c') \<Rightarrow>
                     (if truthy pets
                      then (case random_choice rnd pets of
                              Inl e \<Rightarrow> (Inl e, c @ c')
                            | Inr pet \<Rightarrow>
                                (case subscript pet ''name'' of
                                   Inl e \<Rightarrow> (Inl e, c @ c')
                                 | Inr n \<Rightarrow>
                                     (Inr (Some \<lparr>fp_store = store, fp_pet_type_id = pet_type_id,
                                                 fp_pet_type_name = req_pet_type request,
                                                 fp_name = n\<rparr>), c @ c')))
                      else (Inr None, c @ c')))))"

fun find_available_pet_loop ::
  "python \<Rightarrow> inventories \<Rightarrow> nat \<Rightarrow> purchase_request \<Rightarrow> int list
     \<Rightarrow> found_pet option client_result" where
  "find_available_pet_loop py env rnd request [] = (Inr None, [])"
| "find_available_pet_loop py env rnd request (store # stores) =
     (case probe_store py env rnd request store of
        (Inl e, c) \<Rightarrow> (Inl e, c)
      | (Inr (Some pet), c) \<Rightarrow> (Inr (Some pet), c)
      | (Inr None, c) \<Rightarrow>
          (case find_available_pet_loop py env rnd request stores of
             (r, c') \<Rightarrow> (r, c @ c')))"

definition find_available_pet ::
  "python \<Rightarrow> inventories \<Rightarrow> nat \<Rightarrow> purchase_request \<Rightarrow> found_pet option client_result" where
  "find_available_pet py env rnd request =
     find_available_pet_loop py env rnd request (stores_to_check request)"

section \<open>The transaction ledger (database.py and the collection's operations)\<close>

text \<open>
  An identifier of the database is identified with its string form, the value of \<open>str\<close>
  on it. Which strings the constructor \<open>ObjectId(...)\<close> accepts is the database
  library's matter: every function that parses an identifier takes the parser as an
  argument (\<open>None\<close> is \<open>InvalidId\<close>).
\<close>

datatype object_id = ObjectId string

fun str_object_id :: "object_id \<Rightarrow> string" where
  "str_object_id (ObjectId s) = s"

record transaction_doc =
  doc_id :: object_id
  doc_purchaser :: string
  doc_pet_type :: string
  doc_store :: int

record collection =
  docs :: "transaction_doc list"
  reachable :: bool

text \<open>
  \<open>collection.insert_one\<close>: the driver assigns the identifier \<open>new_id\<close>; the write is
  refused when the database cannot be reached or when the identifier is taken.
\<close>

definition insert_one ::
  "collection \<Rightarrow> string \<Rightarrow> string \<Rightarrow> int \<Rightarrow> object_id \<Rightarrow> exn + (object_id \<times> collection)" where
  "insert_one coll purchaser pet_type store new_id =
     (if \<not> reachable coll then Inl PyMongoError
      else if new_id \<in> set (map doc_id (docs coll)) then Inl PyMongoError
      else Inr (new_id,
                coll\<lparr>docs := docs coll @
                  [\<lparr>doc_id = new_id, doc_purchaser = purchaser,
                    doc_pet_type = pet_type, doc_store = store\<rparr>]\<rparr>))"

record query =
  q_store :: "int option"
  q_pet_type :: "string option"
  q_purchaser :: "string option"
  q_id :: "object_id option"

text \<open>\<open>collection.find(query)\<close>: the documents equal to the query on every key it has.\<close>

definition matches :: "query \<Rightarrow> transaction_doc \<Rightarrow> bool" where
  "matches q d =
     ((case q_store q of None \<Rightarrow> True | Some s \<Rightarrow> doc_store d = s) \<and>
      (case q_pet_type q of None \<Rightarrow> True | Some t \<Rightarrow> doc_pet_type d = t) \<and>
      (case q_purchaser q of None \<Rightarrow> True | Some p \<Rightarrow> doc_purchaser d = p) \<and>
      (case q_id q of None \<Rightarrow> True | Some i \<Rightarrow> doc_id d = i))"

definition find_docs :: "collection \<Rightarrow> query \<Rightarrow> exn + transaction_doc list" where
  "find_docs coll q =
     (if reachable coll then Inr (filter (matches q) (docs coll)) else Inl PyMongoError)"

section \<open>The purchase arbiter (process_purchase) and the ledger query (get_transactions)\<close>

type_synonym 'a purchase_result = "(exn + 'a) \<times> http_request list \<times> collection"

text \<open>
  The last step builds the \<open>PurchaseResponse\<close>; its \<open>pet_name\<close> field is a \<open>str\<close>, so
  the construction raises for a found name that is not a string, after the delete and
  the insert have taken place.
\<close>

definition process_purchase ::
  "python \<Rightarrow> inventories \<Rightarrow> nat \<Rightarrow> object_id \<Rightarrow> collection \<Rightarrow> purchase_request
     \<Rightarrow> purchase_response purchase_result" where
  "process_purchase py env rnd new_id coll request =
     (case find_available_pet py env rnd request of
        (Inl e, c) \<Rightarrow> (Inl e, c, coll)
      | (Inr None, c) \<Rightarrow> (Inl NoPetAvailable, c, coll)
      | (Inr (Some pet), c) \<Rightarrow>
          (case delete_pet py env (fp_store pet) (fp_pet_type_id pet) (fp_name pet) of
             (Inl e, c') \<Rightarrow> (Inl e, c @ c', coll)
           | (Inr success, c') \<Rightarrow>
               (if \<not> success then (Inl NoPetAvailable, c @ c', coll)
                else (case insert_one coll (req_purchaser request) (fp_pet_type_name pet)
                             (fp_store pet) new_id of
                        Inl e \<Rightarrow> (Inl e, c @ c', coll)
                      | Inr (inserted_id, coll') \<Rightarrow>
                          (case fp_name pet of
                             JStr name \<Rightarrow>
                               (Inr \<lparr>resp_purchaser = req_purchaser request,
                                     resp_pet_type = fp_pet_type_name pet,
                                     resp_store = fp_store pet,
                                     resp_pet_name = name,
                                     resp_purchase_id = str_object_id inserted_id\<rparr>,
                                c @ c', coll')
                           | _ \<Rightarrow> (Inl ValidationError, c @ c', coll'))))))"

definition to_transaction :: "transaction_doc \<Rightarrow> transaction" where
  "to_transaction doc =
     \<lparr>txn_purchaser = doc_purchaser doc, txn_pet_type = doc_pet_type doc,
      txn_store = doc_store doc, txn_purchase_id = str_object_id (doc_id doc)\<rparr>"

definition get_transactions ::
  "(string \<Rightarrow> object_id option) \<Rightarrow> collection \<Rightarrow> int option \<Rightarrow> string option \<Rightarrow> string option
     \<Rightarrow> string option \<Rightarrow> exn + transaction list" where
  "get_transactions parse_id coll store pet_type purchaser purchase_id =
     (case (case purchase_id of
              None \<Rightarrow> Some None
            | Some p \<Rightarrow> (case parse_id p of None \<Rightarrow> None | Some i \<Rightarrow> Some (Some i))) of
        None \<Rightarrow> Inr []
      | Some qid \<Rightarrow>
          (case find_docs coll \<lparr>q_store = store, q_pet_type = pet_type,
                                q_purchaser = purchaser, q_id = qid\<rparr> of
             Inl e \<Rightarrow> Inl e
           | Inr ds \<Rightarrow> Inr (map to_transaction ds)))"

section \<open>The routes (routers/purchases.py, routers/transactions.py, main.py)\<close>

datatype reply =
    JSONResponse nat string string
  | Created purchase_response
  | Listing "transaction list"

fun status_of :: "reply \<Rightarrow> nat" where
  "status_of (JSONResponse code _ _) = code"
| "status_of (Created _) = 201"
| "status_of (Listing _) = 200"

definition OWNER_PC_SECRET :: string where
  "OWNER_PC_SECRET = ''LovesPetsL2M3n4''"

text \<open>The handler \<open>list_transactions\<close>, on the parameters the framework passes to it.\<close>

definition list_transactions ::
  "(string \<Rightarrow> object_id option) \<Rightarrow> collection \<Rightarrow> string option \<Rightarrow> int option \<Rightarrow> string option
     \<Rightarrow> string option \<Rightarrow> string option \<Rightarrow> exn + reply" where
  "list_transactions parse_id coll ownerpc store pet_type purchaser purchase_id =
     (if ownerpc \<noteq> Some OWNER_PC_SECRET
      then Inr (JSONResponse 401 ''error'' ''unauthorized'')
      else (case get_transactions parse_id coll store pet_type purchaser purchase_id of
              Inl e \<Rightarrow> Inl e
            | Inr transactions \<Rightarrow> Inr (Listing transactions)))"

text \<open>
  \<open>request.headers.get("content-type", "")\<close> followed by the substring test.
\<close>

definition is_json :: "string option \<Rightarrow> bool" where
  "is_json header =
     sublist ''application/json'' (case header of None \<Rightarrow> [] | Some v \<Rightarrow> v)"

definition validation_exception_handler :: "string option \<Rightarrow> reply" where
  "validation_exception_handler header =
     (if \<not> is_json header
      then JSONResponse 415 ''error'' ''Expected application/json media type''
      else JSONResponse 400 ''error'' ''Malformed data'')"

text \<open>
  \<open>GET /transactions\<close> as the framework runs it. The parameter \<open>store\<close> is declared
  \<open>Optional[int]\<close>: its raw text is validated before the handler is called, and a text
  that is no integer goes to \<open>validation_exception_handler\<close>. The other parameters are
  strings and always pass. Which texts are integers is the framework's matter
  (\<open>parse_int\<close>).
\<close>

definition validate_store_param :: "(string \<Rightarrow> int option) \<Rightarrow> string option \<Rightarrow> int option option" where
  "validate_store_param parse_int raw =
     (case raw of
        None \<Rightarrow> Some None
      | Some text \<Rightarrow> (case parse_int text of None \<Rightarrow> None | Some i \<Rightarrow> Some (Some i)))"

definition GET_transactions ::
  "(string \<Rightarrow> int option) \<Rightarrow> (string \<Rightarrow> object_id option) \<Rightarrow> collection \<Rightarrow> string option
     \<Rightarrow> string option \<Rightarrow> string option \<Rightarrow> string option \<Rightarrow> string option \<Rightarrow> string option
     \<Rightarrow> exn + reply" where
  "GET_transactions parse_int parse_id coll header ownerpc store pet_type purchaser purchase_id =
     (case validate_store_param parse_int store of
        None \<Rightarrow> Inr (validation_exception_handler header)
      | Some s \<Rightarrow> list_transactions parse_id coll ownerpc s pet_type purchaser purchase_id)"

definition create_purchase ::
  "python \<Rightarrow> inventories \<Rightarrow> nat \<Rightarrow> object_id \<Rightarrow> collection \<Rightarrow> string option
     \<Rightarrow> purchase_request \<Rightarrow> reply purchase_result" where
  "create_purchase py env rnd new_id coll header purchase =
     (if \<not> is_json header
      then (Inr (JSONResponse 415 ''error'' ''Expected application/json media type''), [], coll)
      else (case process_purchase py env rnd new_id coll purchase of
              (Inr response, c, coll') \<Rightarrow> (Inr (Created response), c, coll')
            | (Inl NoPetAvailable, c, coll') \<Rightarrow>
                (Inr (JSONResponse 400 ''error'' ''No pet of this type is available''), c, coll')
            | (Inl e, c, coll') \<Rightarrow> (Inl e, c, coll')))"

text \<open>
  \<open>POST /purchases\<close> as the framework runs it. The body is decoded as JSON only when the
  framework takes the media type for a JSON one (\<open>decodes_json\<close> of the Content-Type
  header, its own test and not the substring test above). \<open>body\<close> is that decoded body
  as the fields of a \<open>PurchaseRequest\<close>, \<open>None\<close> when it has not that shape. The body is
  then built into a \<open>PurchaseRequest\<close>, which runs the validator. Every failure on the
  way goes to \<open>validation_exception_handler\<close>, and only a valid request reaches
  \<open>create_purchase\<close>.
\<close>

definition post_purchases ::
  "python \<Rightarrow> (string option \<Rightarrow> bool) \<Rightarrow> inventories \<Rightarrow> nat \<Rightarrow> object_id \<Rightarrow> collection
     \<Rightarrow> string option \<Rightarrow> purchase_request option \<Rightarrow> reply purchase_result" where
  "post_purchases py decodes_json env rnd new_id coll header body =
     (if \<not> decodes_json header
      then (Inr (validation_exception_handler header), [], coll)
      else (case body of
              None \<Rightarrow> (Inr (validation_exception_handler header), [], coll)
            | Some given \<Rightarrow>
                (case validate_pet_name_requires_store given of
                   Inl e \<Rightarrow> (Inr (validation_exception_handler header), [], coll)
                 | Inr purchase \<Rightarrow> create_purchase py env rnd new_id coll header purchase)))"

section \<open>The inventory service's own pet lookup (routers/pets.py, pet_service.py, mongo_store.py)\<close>

record pet_type_doc =
  ptd_id :: object_id
  ptd_type :: string

record pet_doc =
  pd_pet_type_id :: string
  pd_name :: string
  pd_birthdate :: string
  pd_picture :: string

record inventory =
  pet_types_collection :: "pet_type_doc list"
  pets_collection :: "pet_doc list"

text \<open>\<open>find_one\<close> returns the first document of the collection that satisfies the filter.\<close>

definition MongoStore_get_pet_type ::
  "(string \<Rightarrow> object_id option) \<Rightarrow> inventory \<Rightarrow> string \<Rightarrow> pet_type_doc option" where
  "MongoStore_get_pet_type parse_id db pet_type_id =
     (case parse_id pet_type_id of
        None \<Rightarrow> None
      | Some i \<Rightarrow> find (\<lambda>d. ptd_id d = i) (pet_types_collection db))"

text \<open>
  The filter of \<open>get_pet_case_insensitive\<close> on the name is the regular expression
  \<open>^\<close>, the escaped requested name, \<open>$\<close>, compiled with \<open>re.IGNORECASE\<close>. Whether a stored
  name satisfies it is the database's matter: \<open>regex_ci name stored\<close>.
\<close>

definition MongoStore_get_pet_case_insensitive ::
  "(string \<Rightarrow> string \<Rightarrow> bool) \<Rightarrow> inventory \<Rightarrow> string \<Rightarrow> string \<Rightarrow> (pet_doc \<times> string) option" where
  "MongoStore_get_pet_case_insensitive regex_ci db pet_type_id name =
     (case find (\<lambda>d. pd_pet_type_id d = pet_type_id \<and> regex_ci name (pd_name d))
             (pets_collection db) of
        None \<Rightarrow> None
      | Some doc \<Rightarrow> Some (doc, pd_name doc))"

definition pet_response :: "pet_doc \<Rightarrow> json" where
  "pet_response pet =
     JObj [(''name'', JStr (pd_name pet)), (''birthdate'', JStr (pd_birthdate pet)),
           (''picture'', JStr (pd_picture pet))]"

definition PetService_get_pet ::
  "(string \<Rightarrow> string \<Rightarrow> bool) \<Rightarrow> (string \<Rightarrow> object_id option) \<Rightarrow> inventory \<Rightarrow> string \<Rightarrow> string
     \<Rightarrow> exn + json option" where
  "PetService_get_pet regex_ci parse_id db pet_type_id name =
     (case MongoStore_get_pet_type parse_id db pet_type_id of
        None \<Rightarrow> Inl (ValueError ''PET_TYPE_NOT_FOUND'')
      | Some pet_type \<Rightarrow>
          (case MongoStore_get_pet_case_insensitive regex_ci db pet_type_id name of
             None \<Rightarrow> Inr None
           | Some (pet, actual_name) \<Rightarrow> Inr (Some (pet_response pet))))"

text \<open>
  The handler of \<open>GET /pet-types/{id}/pets/{name}\<close>, on the path parameters the framework
  took from the URL: 200 with the pet, or 404 with an error object.
\<close>

definition pets_router_get_pet ::
  "(string \<Rightarrow> string \<Rightarrow> bool) \<Rightarrow> (string \<Rightarrow> object_id option) \<Rightarrow> inventory \<Rightarrow> string \<Rightarrow> string
     \<Rightarrow> http_outcome" where
  "pets_router_get_pet regex_ci parse_id db pet_type_id name =
     (case PetService_get_pet regex_ci parse_id db pet_type_id name of
        Inl e \<Rightarrow> Response 404 (Some (JObj [(''error'', JStr ''Not found'')]))
      | Inr None \<Rightarrow> Response 404 (Some (JObj [(''error'', JStr ''Not found'')]))
      | Inr (Some pet) \<Rightarrow> Response 200 (Some pet))"

section \<open>A concrete scenario\<close>

text \<open>
  Inventory 1 lists three pet types, two of them poodles up to case, and holds one
  poodle, Jamie; inventory 2 lists nothing. The ledger holds one earlier sale. All texts
  of the scenario are ASCII letters and digits, where the library functions are known:
  \<open>ascii_lower\<close> is \<open>str.lower\<close> there, a name passes the case-insensitive filter when
  it equals the requested one after \<open>ascii_lower\<close>, and no value other than a string
  is ever pasted into a URL.
\<close>

definition ascii_lower_char :: "char \<Rightarrow> char" where
  "ascii_lower_char c =
     (let n = (of_char c :: nat) in if 65 \<le> n \<and> n \<le> 90 then char_of (n + 32) else c)"

definition ascii_lower :: "string \<Rightarrow> string" where
  "ascii_lower s = map ascii_lower_char s"

definition scenario_python :: python where
  "scenario_python = \<lparr>str_lower = ascii_lower, str_of = (\<lambda>v. [])\<rparr>"

definition scenario_regex_ci :: "string \<Rightarrow> string \<Rightarrow> bool" where
  "scenario_regex_ci name stored = (ascii_lower stored = ascii_lower name)"

definition scenario_parse_id :: "string \<Rightarrow> object_id option" where
  "scenario_parse_id s = (if length s = 24 then Some (ObjectId s) else None)"

definition scenario_parse_int :: "string \<Rightarrow> int option" where
  "scenario_parse_int s =
     (if s = ''1'' then Some 1 else if s = ''2'' then Some 2 else None)"

definition scenario_decodes_json :: "string option \<Rightarrow> bool" where
  "scenario_decodes_json header = (header = None \<or> header = Some ''application/json'')"

definition poodle_id :: string where
  "poodle_id = ''64b7f3a2c1d4e5f6a7b8c9d0''"

definition jamie :: json where
  "jamie = JObj [(''name'', JStr ''Jamie''), (''birthdate'', JStr ''24-10-2023''),
                 (''picture'', JStr ''NA'')]"

definition scenario_inventory :: inventory where
  "scenario_inventory =
     \<lparr>pet_types_collection = [\<lparr>ptd_id = ObjectId poodle_id, ptd_type = ''POODLE''\<rparr>],
      pets_collection =
        [\<lparr>pd_pet_type_id = poodle_id, pd_name = ''Jamie'',
          pd_birthdate = ''24-10-2023'', pd_picture = ''NA''\<rparr>]\<rparr>"

definition scenario_types :: "json list" where
  "scenario_types =
     [JObj [(''id'', JStr ''64b7f3a2c1d4e5f6a7b8c9aa''), (''type'', JStr ''Siamese'')],
      JObj [(''id'', JStr poodle_id), (''type'', JStr ''POODLE'')],
      JObj [(''id'', JStr ''64b7f3a2c1d4e5f6a7b8c9bb''), (''type'', JStr ''poodle'')]]"

definition not_found :: http_outcome where
  "not_found = Response 404 (Some (JObj [(''error'', JStr ''Not found'')]))"

definition store1 :: string where
  "store1 = ''http://pet-store1:8000''"

definition store2 :: string where
  "store2 = ''http://pet-store2:8000''"

definition scenario_env :: inventories where
  "scenario_env method url =
     (if method = GET \<and> url = pet_types_url store1
        then Response 200 (Some (JArr scenario_types))
      else if method = GET \<and> url = pet_types_url store2
        then Response 200 (Some (JArr []))
      else if method = GET \<and> url = pets_url store1 poodle_id
        then Response 200 (Some (JArr [jamie]))
      else if method = GET \<and> prefix (pet_url store1 poodle_id []) url
        then pets_router_get_pet scenario_regex_ci scenario_parse_id scenario_inventory
               poodle_id (drop (length (pet_url store1 poodle_id [])) url)
      else if method = DELETE \<and> url = pet_url store1 poodle_id ''Jamie''
        then Response 204 None
      else not_found)"


definition race_lost_env :: inventories where
  "race_lost_env method url = (if method = DELETE then not_found else scenario_env method url)"

definition unreachable_env :: inventories where
  "unreachable_env method url = (if method = DELETE then NoResponse else scenario_env method url)"

definition silent_env :: inventories where
  "silent_env method url = NoResponse"

definition scenario_ledger :: collection where
  "scenario_ledger =
     \<lparr>docs = [\<lparr>doc_id = ObjectId ''64b7f3a2c1d4e5f6a7b8c901'', doc_purchaser = ''Bo'',
               doc_pet_type = ''Siamese'', doc_store = 2\<rparr>],
      reachable = True\<rparr>"

definition fresh_id :: object_id where
  "fresh_id = ObjectId ''64b7f3a2c1d4e5f6a7b8c902''"

definition ana :: purchase_request where
  "ana = \<lparr>req_purchaser = ''Ana'', req_pet_type = ''Poodle'',
          req_store = None, req_pet_name = None\<rparr>"

section \<open>Verified properties\<close>


lemma get_pet_types_calls:
  "get_pet_types env s = (y, cc) \<Longrightarrow> q \<in> set cc \<Longrightarrow> q = GET_pet_types s"
  by (auto simp: get_pet_types_def split: option.splits http_outcome.splits if_splits)

lemma find_pet_type_id_calls:
  "find_pet_type_id py env s n = (y, cc) \<Longrightarrow> q \<in> set cc \<Longrightarrow> q = GET_pet_types s"
  by (auto simp: find_pet_type_id_def split: prod.splits sum.splits dest: get_pet_types_calls)


lemma get_pets_for_type_calls:
  "get_pets_for_type py env s t = (y, cc) \<Longrightarrow> q \<in> set cc \<Longrightarrow> q = GET_pets s (fstring py t)"
  by (auto simp: get_pets_for_type_def split: option.splits http_outcome.splits if_splits)

lemma delete_pet_calls:
  "fst (delete_pet py env s t n) = Inr b \<Longrightarrow>
   snd (delete_pet py env s t n) = [DELETE_pet s (fstring py t) (fstring py n)]"
  by (auto simp: delete_pet_def split: option.splits http_outcome.splits)



lemma probe_store_no_get_pet:
  assumes "\<not> truthy_str (req_pet_name request)"
  shows "GET_pet s' t n \<notin> set (snd (probe_store py env rnd request s))"
  using assms unfolding probe_store_def
  by (auto split: sum.splits option.splits if_splits prod.splits
        dest: find_pet_type_id_calls get_pets_for_type_calls)







lemma loop_calls_from_probes:
  "r \<in> set (snd (find_available_pet_loop py env rnd request ss)) \<Longrightarrow>
   \<exists>s\<in>set ss. r \<in> set (snd (probe_store py env rnd request s))"
  by (induction ss) (auto split: prod.splits sum.splits option.splits)

lemma loop_cong:
  "(\<And>s. probe_store py env rnd request s = probe_store py env rnd request' s) \<Longrightarrow>
   find_available_pet_loop py env rnd request ss = find_available_pet_loop py env rnd request' ss"
  by (induction ss) (auto split: prod.splits sum.splits option.splits)



lemma find_pet_type_id_loop_first:
  assumes "\<forall>pt\<in>set pts. \<exists>s. dict_get pt ''type'' (JStr []) = Inr (JStr s)"
  shows "(\<exists>i<length pts. \<exists>s.
      dict_get (pts ! i) ''type'' (JStr []) = Inr (JStr s) \<and> str_lower py s = l \<and>
      (\<forall>j<i. \<forall>s'. dict_get (pts ! j) ''type'' (JStr []) = Inr (JStr s') \<longrightarrow>
                  str_lower py s' \<noteq> l) \<and>
      find_pet_type_id_loop py l pts = dict_get (pts ! i) ''id'' JNull)
   \<or> ((\<forall>pt\<in>set pts. \<forall>s'. dict_get pt ''type'' (JStr []) = Inr (JStr s') \<longrightarrow>
                  str_lower py s' \<noteq> l) \<and>
       find_pet_type_id_loop py l pts = Inr JNull)"
  using assms
proof (induction pts)
  case Nil
  show ?case by simp
next
  case (Cons pt pts)
  from Cons.prems obtain s where s: "dict_get pt ''type'' (JStr []) = Inr (JStr s)"
    by auto
  from Cons.prems have rest: "\<forall>pt\<in>set pts. \<exists>s. dict_get pt ''type'' (JStr []) = Inr (JStr s)"
    by simp
  show ?case
  proof (cases "str_lower py s = l")
    case True
    with s have "0 < length (pt # pts) \<and>
      dict_get ((pt # pts) ! 0) ''type'' (JStr []) = Inr (JStr s) \<and> str_lower py s = l \<and>
      (\<forall>j<0. \<forall>s'. dict_get ((pt # pts) ! j) ''type'' (JStr []) = Inr (JStr s') \<longrightarrow>
                  str_lower py s' \<noteq> l) \<and>
      find_pet_type_id_loop py l (pt # pts) = dict_get ((pt # pts) ! 0) ''id'' JNull"
      by simp
    then show ?thesis by blast
  next
    case False
    from Cons.IH [OF rest] show ?thesis
    proof
      assume "\<exists>i<length pts. \<exists>s.
        dict_get (pts ! i) ''type'' (JStr []) = Inr (JStr s) \<and> str_lower py s = l \<and>
        (\<forall>j<i. \<forall>s'. dict_get (pts ! j) ''type'' (JStr []) = Inr (JStr s') \<longrightarrow>
                  str_lower py s' \<noteq> l) \<and>
        find_pet_type_id_loop py l pts = dict_get (pts ! i) ''id'' JNull"
      then obtain i t where i: "i < length pts"
        "dict_get (pts ! i) ''type'' (JStr []) = Inr (JStr t)" "str_lower py t = l"
        "\<forall>j<i. \<forall>s'. dict_get (pts ! j) ''type'' (JStr []) = Inr (JStr s') \<longrightarrow>
                  str_lower py s' \<noteq> l"
        "find_pet_type_id_loop py l pts = dict_get (pts ! i) ''id'' JNull" by blast
      have "\<forall>j<Suc i. \<forall>s'. dict_get ((pt # pts) ! j) ''type'' (JStr []) = Inr (JStr s') \<longrightarrow>
                  str_lower py s' \<noteq> l"
        using i(4) False s by (auto simp: less_Suc_eq_0_disj)
      with i False s have "Suc i < length (pt # pts) \<and>
        dict_get ((pt # pts) ! Suc i) ''type'' (JStr []) = Inr (JStr t) \<and> str_lower py t = l \<and>
        (\<forall>j<Suc i. \<forall>s'. dict_get ((pt # pts) ! j) ''type'' (JStr []) = Inr (JStr s') \<longrightarrow>
                  str_lower py s' \<noteq> l) \<and>
        find_pet_type_id_loop py l (pt # pts) = dict_get ((pt # pts) ! Suc i) ''id'' JNull"
        by simp
      then show ?thesis by blast
    next
      assume "(\<forall>pt\<in>set pts. \<forall>s'. dict_get pt ''type'' (JStr []) = Inr (JStr s') \<longrightarrow>
                  str_lower py s' \<noteq> l) \<and>
       find_pet_type_id_loop py l pts = Inr JNull"
      with False s show ?thesis by simp
    qed
  qed
qed


text \<open>
  Claim C7. The listing is what \<open>get_pet_types\<close> returned: a list of pet types, each an
  object whose \<open>type\<close>, when present, is a string (an absent \<open>type\<close> reads as the empty
  string). \<open>find_pet_type_id\<close> answers with the \<open>id\<close> of the first listed pet type whose
  \<open>type\<close> equals the requested name after \<open>str.lower\<close> on both, and with \<open>None\<close> when no
  listed pet type does, as for an empty listing. This holds for \<open>str.lower\<close> as it is,
  on every string.
\<close>

theorem find_pet_type_id_first_match:
  assumes "get_pet_types env store = (Inr (JArr pts), c)"
    and "\<forall>pt\<in>set pts. \<exists>s. dict_get pt ''type'' (JStr []) = Inr (JStr s)"
  shows "(\<exists>i<length pts. \<exists>s.
            dict_get (pts ! i) ''type'' (JStr []) = Inr (JStr s) \<and>
            str_lower py s = str_lower py type_name \<and>
            (\<forall>j<i. \<forall>s'. dict_get (pts ! j) ''type'' (JStr []) = Inr (JStr s') \<longrightarrow>
                        str_lower py s' \<noteq> str_lower py type_name) \<and>
            find_pet_type_id py env store type_name = (dict_get (pts ! i) ''id'' JNull, c))
         \<or> ((\<forall>pt\<in>set pts. \<forall>s'. dict_get pt ''type'' (JStr []) = Inr (JStr s') \<longrightarrow>
                        str_lower py s' \<noteq> str_lower py type_name) \<and>
             find_pet_type_id py env store type_name = (Inr JNull, c))"
proof -
  have "find_pet_type_id py env store type_name =
          (find_pet_type_id_loop py (str_lower py type_name) pts, c)"
    using assms(1) by (simp add: find_pet_type_id_def iterate_def)
  with find_pet_type_id_loop_first [OF assms(2), of py "str_lower py type_name"]
  show ?thesis by auto
qed

theorem find_pet_type_id_first_match_witness:
  "get_pet_types scenario_env 1 = (Inr (JArr scenario_types), [GET_pet_types 1]) \<and>
   find_pet_type_id scenario_python scenario_env 1 ''Poodle'' =
     (Inr (JStr poodle_id), [GET_pet_types 1]) \<and>
   find_pet_type_id scenario_python scenario_env 1 ''Beagle'' = (Inr JNull, [GET_pet_types 1])"
proof -
  have h: "get_pet_types scenario_env 1 = (Inr (JArr scenario_types), [GET_pet_types 1])"
    by code_simp
  have sh: "\<forall>pt\<in>set scenario_types. \<exists>s. dict_get pt ''type'' (JStr []) = Inr (JStr s)"
    by (simp add: scenario_types_def dict_get_def)
  have l: "str_lower scenario_python ''Siamese'' = ''siamese''"
    "str_lower scenario_python ''POODLE'' = ''poodle''"
    "str_lower scenario_python ''poodle'' = ''poodle''"
    "str_lower scenario_python ''Poodle'' = ''poodle''"
    "str_lower scenario_python ''Beagle'' = ''beagle''"
    by code_simp+
  have a: "find_pet_type_id scenario_python scenario_env 1 ''Poodle'' =
             (Inr (JStr poodle_id), [GET_pet_types 1])"
    using find_pet_type_id_first_match [OF h sh, of scenario_python "''Poodle''"]
    unfolding scenario_types_def
    by (auto simp: dict_get_def l less_Suc_eq_0_disj)
  have b: "find_pet_type_id scenario_python scenario_env 1 ''Beagle'' =
             (Inr JNull, [GET_pet_types 1])"
    using find_pet_type_id_first_match [OF h sh, of scenario_python "''Beagle''"]
    unfolding scenario_types_def
    by (auto simp: dict_get_def l less_Suc_eq_0_disj)
  from h a b show ?thesis by simp
qed

text \<open>
  Claim C5, as amended. For a configured store \<open>delete_pet\<close> sends one DELETE to the URL
  of the pet; it returns \<open>True\<close> exactly when the response has status 200 or 204 and
  \<open>False\<close> for every other response. When no response arrives, the transport error is
  raised to the caller.
\<close>

theorem delete_pet_status:
  assumes "store \<in> {1, 2}"
  shows "\<exists>base. PET_STORE_URLS store = Some base \<and>
           delete_pet py env store pet_type_id name =
             (case env DELETE (pet_url base (fstring py pet_type_id) (fstring py name)) of
                Response status_code body \<Rightarrow> Inr (status_code = 200 \<or> status_code = 204)
              | NoResponse \<Rightarrow> Inl TransportError,
              [DELETE_pet store (fstring py pet_type_id) (fstring py name)])"
  using assms
  by (auto simp: delete_pet_def PET_STORE_URLS_def split: http_outcome.splits)

theorem delete_pet_status_witness:
  "(1::int) \<in> {1, 2} \<and>
   delete_pet scenario_python scenario_env 1 (JStr poodle_id) (JStr ''Jamie'') =
     (Inr True, [DELETE_pet 1 poodle_id ''Jamie'']) \<and>
   delete_pet scenario_python race_lost_env 1 (JStr poodle_id) (JStr ''Jamie'') =
     (Inr False, [DELETE_pet 1 poodle_id ''Jamie''])"
proof -
  have h: "(1::int) \<in> {1, 2}" by simp
  have u: "PET_STORE_URLS 1 = Some store1"
    by code_simp
  have f: "fstring scenario_python (JStr poodle_id) = poodle_id"
    "fstring scenario_python (JStr ''Jamie'') = ''Jamie''"
    by (simp_all add: fstring_def)
  have a: "scenario_env DELETE (pet_url store1 poodle_id ''Jamie'') = Response 204 None"
    by code_simp
  have b: "race_lost_env DELETE (pet_url store1 poodle_id ''Jamie'') =
             Response 404 (Some (JObj [(''error'', JStr ''Not found'')]))"
    by code_simp
  show ?thesis
    using delete_pet_status [OF h, of scenario_python scenario_env "JStr poodle_id" "JStr ''Jamie''"]
      delete_pet_status [OF h, of scenario_python race_lost_env "JStr poodle_id" "JStr ''Jamie''"]
    by (auto simp: u f a b)
qed

text \<open>
  Against claim C5 as stated: with the backend unreachable, \<open>delete_pet\<close> does not return
  \<open>False\<close>; it raises.
\<close>

theorem delete_pet_transport_failure_raises:
  "unreachable_env DELETE (pet_url store1 poodle_id ''Jamie'') = NoResponse \<and>
   fst (delete_pet scenario_python unreachable_env 1 (JStr poodle_id) (JStr ''Jamie'')) =
     Inl TransportError \<and>
   fst (delete_pet scenario_python unreachable_env 1 (JStr poodle_id) (JStr ''Jamie'')) \<noteq>
     Inr False"
  by code_simp

text \<open>
  Claim C1. When the locator has returned a candidate and the delete of that candidate
  reports failure, \<open>process_purchase\<close> raises \<open>NoPetAvailable\<close> and leaves the ledger as
  it was; the requests sent are those of the one search followed by the one DELETE, so
  nothing is located again. Under a JSON content type \<open>create_purchase\<close> turns this
  into the 400 reply "No pet of this type is available".
\<close>

theorem failed_claim_is_no_pet_available:
  assumes "find_available_pet py env rnd request = (Inr (Some pet), c)"
    and "fst (delete_pet py env (fp_store pet) (fp_pet_type_id pet) (fp_name pet)) = Inr False"
  shows "process_purchase py env rnd new_id coll request =
           (Inl NoPetAvailable,
            c @ [DELETE_pet (fp_store pet) (fstring py (fp_pet_type_id pet))
                   (fstring py (fp_name pet))], coll) \<and>
         (is_json header \<longrightarrow>
            create_purchase py env rnd new_id coll header request =
              (Inr (JSONResponse 400 ''error'' ''No pet of this type is available''),
               c @ [DELETE_pet (fp_store pet) (fstring py (fp_pet_type_id pet))
                      (fstring py (fp_name pet))], coll))"
proof -
  have d: "delete_pet py env (fp_store pet) (fp_pet_type_id pet) (fp_name pet) =
             (Inr False, [DELETE_pet (fp_store pet) (fstring py (fp_pet_type_id pet))
                            (fstring py (fp_name pet))])"
    using assms(2) delete_pet_calls [OF assms(2)] by (simp add: prod_eq_iff)
  have p: "process_purchase py env rnd new_id coll request =
           (Inl NoPetAvailable,
            c @ [DELETE_pet (fp_store pet) (fstring py (fp_pet_type_id pet))
                   (fstring py (fp_name pet))], coll)"
    by (simp add: process_purchase_def assms(1) d)
  then show ?thesis by (simp add: create_purchase_def)
qed

theorem failed_claim_is_no_pet_available_witness:
  "find_available_pet scenario_python race_lost_env 0 ana =
     (Inr (Some \<lparr>fp_store = 1, fp_pet_type_id = JStr poodle_id, fp_pet_type_name = ''Poodle'',
                 fp_name = JStr ''Jamie''\<rparr>), [GET_pet_types 1, GET_pets 1 poodle_id]) \<and>
   fst (delete_pet scenario_python race_lost_env 1 (JStr poodle_id) (JStr ''Jamie'')) =
     Inr False \<and>
   is_json (Some ''application/json; charset=utf-8'') \<and>
   process_purchase scenario_python race_lost_env 0 fresh_id scenario_ledger ana =
     (Inl NoPetAvailable,
      [GET_pet_types 1, GET_pets 1 poodle_id, DELETE_pet 1 poodle_id ''Jamie''],
      scenario_ledger) \<and>
   create_purchase scenario_python race_lost_env 0 fresh_id scenario_ledger
       (Some ''application/json; charset=utf-8'') ana =
     (Inr (JSONResponse 400 ''error'' ''No pet of this type is available''),
      [GET_pet_types 1, GET_pets 1 poodle_id, DELETE_pet 1 poodle_id ''Jamie''],
      scenario_ledger)"
proof -
  have f: "find_available_pet scenario_python race_lost_env 0 ana =
     (Inr (Some \<lparr>fp_store = 1, fp_pet_type_id = JStr poodle_id, fp_pet_type_name = ''Poodle'',
                 fp_name = JStr ''Jamie''\<rparr>), [GET_pet_types 1, GET_pets 1 poodle_id])"
    by code_simp
  have d: "fst (delete_pet scenario_python race_lost_env
                  (fp_store \<lparr>fp_store = 1, fp_pet_type_id = JStr poodle_id,
                             fp_pet_type_name = ''Poodle'', fp_name = JStr ''Jamie''\<rparr>)
                  (fp_pet_type_id \<lparr>fp_store = 1, fp_pet_type_id = JStr poodle_id,
                             fp_pet_type_name = ''Poodle'', fp_name = JStr ''Jamie''\<rparr>)
                  (fp_name \<lparr>fp_store = 1, fp_pet_type_id = JStr poodle_id,
                             fp_pet_type_name = ''Poodle'', fp_name = JStr ''Jamie''\<rparr>)) =
             Inr False"
    by code_simp
  have j: "is_json (Some ''application/json; charset=utf-8'')"
    by code_simp
  from failed_claim_is_no_pet_available
         [OF f d, of fresh_id scenario_ledger "Some ''application/json; charset=utf-8''"] f d j
  show ?thesis by (simp add: fstring_def)
qed

text \<open>
  Claim C2. A purchase that returns a response has appended exactly one document to the
  ledger: the document carries the response's purchaser, pet-type name and store, and the
  response's purchase id is the string form of the identifier the document received on
  insertion. When a candidate was located and its delete did not succeed, the ledger is
  unchanged.
\<close>

theorem successful_purchase_records_once:
  "(\<forall>response c coll'.
      process_purchase py env rnd new_id coll request = (Inr response, c, coll') \<longrightarrow>
      (\<exists>doc. docs coll' = docs coll @ [doc] \<and>
             doc_id doc = new_id \<and>
             doc_purchaser doc = resp_purchaser response \<and>
             doc_pet_type doc = resp_pet_type response \<and>
             doc_store doc = resp_store response \<and>
             resp_purchase_id response = str_object_id (doc_id doc))) \<and>
   (\<forall>pet c.
      find_available_pet py env rnd request = (Inr (Some pet), c) \<and>
      fst (delete_pet py env (fp_store pet) (fp_pet_type_id pet) (fp_name pet)) \<noteq> Inr True \<longrightarrow>
      snd (snd (process_purchase py env rnd new_id coll request)) = coll)"
  unfolding process_purchase_def insert_one_def
  by (auto split: prod.splits sum.splits option.splits if_splits json.splits)

theorem successful_purchase_records_once_witness:
  "process_purchase scenario_python scenario_env 0 fresh_id scenario_ledger ana =
     (Inr \<lparr>resp_purchaser = ''Ana'', resp_pet_type = ''Poodle'', resp_store = 1,
           resp_pet_name = ''Jamie'', resp_purchase_id = ''64b7f3a2c1d4e5f6a7b8c902''\<rparr>,
      [GET_pet_types 1, GET_pets 1 poodle_id, DELETE_pet 1 poodle_id ''Jamie''],
      scenario_ledger\<lparr>docs := docs scenario_ledger @
         [\<lparr>doc_id = fresh_id, doc_purchaser = ''Ana'', doc_pet_type = ''Poodle'',
           doc_store = 1\<rparr>]\<rparr>) \<and>
   (\<exists>doc. docs (scenario_ledger\<lparr>docs := docs scenario_ledger @
         [\<lparr>doc_id = fresh_id, doc_purchaser = ''Ana'', doc_pet_type = ''Poodle'',
           doc_store = 1\<rparr>]\<rparr>) = docs scenario_ledger @ [doc] \<and>
      doc_id doc = fresh_id \<and> doc_purchaser doc = ''Ana'' \<and> doc_pet_type doc = ''Poodle'' \<and>
      doc_store doc = 1 \<and> ''64b7f3a2c1d4e5f6a7b8c902'' = str_object_id (doc_id doc)) \<and>
   find_available_pet scenario_python race_lost_env 0 ana =
     (Inr (Some \<lparr>fp_store = 1, fp_pet_type_id = JStr poodle_id, fp_pet_type_name = ''Poodle'',
                 fp_name = JStr ''Jamie''\<rparr>), [GET_pet_types 1, GET_pets 1 poodle_id]) \<and>
   fst (delete_pet scenario_python race_lost_env 1 (JStr poodle_id) (JStr ''Jamie'')) \<noteq>
     Inr True \<and>
   snd (snd (process_purchase scenario_python race_lost_env 0 fresh_id scenario_ledger ana)) =
     scenario_ledger"
proof -
  have p: "process_purchase scenario_python scenario_env 0 fresh_id scenario_ledger ana =
     (Inr \<lparr>resp_purchaser = ''Ana'', resp_pet_type = ''Poodle'', resp_store = 1,
           resp_pet_name = ''Jamie'', resp_purchase_id = ''64b7f3a2c1d4e5f6a7b8c902''\<rparr>,
      [GET_pet_types 1, GET_pets 1 poodle_id, DELETE_pet 1 poodle_id ''Jamie''],
      scenario_ledger\<lparr>docs := docs scenario_ledger @
         [\<lparr>doc_id = fresh_id, doc_purchaser = ''Ana'', doc_pet_type = ''Poodle'',
           doc_store = 1\<rparr>]\<rparr>)"
    by code_simp
  have f: "find_available_pet scenario_python race_lost_env 0 ana =
     (Inr (Some \<lparr>fp_store = 1, fp_pet_type_id = JStr poodle_id, fp_pet_type_name = ''Poodle'',
                 fp_name = JStr ''Jamie''\<rparr>), [GET_pet_types 1, GET_pets 1 poodle_id])"
    by code_simp
  have d: "fst (delete_pet scenario_python race_lost_env 1 (JStr poodle_id) (JStr ''Jamie'')) \<noteq>
             Inr True"
    by code_simp
  note t = successful_purchase_records_once
             [of scenario_python scenario_env 0 fresh_id scenario_ledger ana]
  note u = successful_purchase_records_once
             [of scenario_python race_lost_env 0 fresh_id scenario_ledger ana]
  from t p have a: "\<exists>doc. docs (scenario_ledger\<lparr>docs := docs scenario_ledger @
         [\<lparr>doc_id = fresh_id, doc_purchaser = ''Ana'', doc_pet_type = ''Poodle'',
           doc_store = 1\<rparr>]\<rparr>) = docs scenario_ledger @ [doc] \<and>
      doc_id doc = fresh_id \<and> doc_purchaser doc = ''Ana'' \<and> doc_pet_type doc = ''Poodle'' \<and>
      doc_store doc = 1 \<and> ''64b7f3a2c1d4e5f6a7b8c902'' = str_object_id (doc_id doc)"
    by simp
  from u f d have b:
    "snd (snd (process_purchase scenario_python race_lost_env 0 fresh_id scenario_ledger ana)) =
       scenario_ledger"
    by simp
  from p a f d b show ?thesis by blast
qed




text \<open>
  Claim C4, as amended. A request whose pet name is a non-empty string and whose store is
  absent is rejected by the validator; the route answers with the reply of the validation
  handler (400 "Malformed data", or 415 without a JSON content type), sends no request to
  any inventory and leaves the ledger as it was.
\<close>

theorem named_request_without_store_rejected:
  assumes "req_pet_name body = Some name" and "name \<noteq> []" and "req_store body = None"
  shows "validate_pet_name_requires_store body =
           Inl (ValueError ''pet-name can only be provided if store is provided'') \<and>
         post_purchases py decodes_json env rnd new_id coll header (Some body) =
           (Inr (validation_exception_handler header), [], coll) \<and>
         status_of (validation_exception_handler header) \<in> {400, 415}"
  using assms
  by (simp add: post_purchases_def validate_pet_name_requires_store_def truthy_str_def
        truthy_int_def validation_exception_handler_def)

theorem named_request_without_store_rejected_witness:
  "req_pet_name (ana\<lparr>req_pet_name := Some ''Jamie''\<rparr>) = Some ''Jamie'' \<and> ''Jamie'' \<noteq> [] \<and>
   req_store (ana\<lparr>req_pet_name := Some ''Jamie''\<rparr>) = None \<and>
   post_purchases scenario_python scenario_decodes_json scenario_env 0 fresh_id scenario_ledger
       (Some ''application/json'') (Some (ana\<lparr>req_pet_name := Some ''Jamie''\<rparr>)) =
     (Inr (JSONResponse 400 ''error'' ''Malformed data''), [], scenario_ledger)"
proof -
  have a: "req_pet_name (ana\<lparr>req_pet_name := Some ''Jamie''\<rparr>) = Some ''Jamie''"
    by simp
  have b: "''Jamie'' \<noteq> []"
    by simp
  have c: "req_store (ana\<lparr>req_pet_name := Some ''Jamie''\<rparr>) = None"
    by (simp add: ana_def)
  have h: "validation_exception_handler (Some ''application/json'') =
             JSONResponse 400 ''error'' ''Malformed data''"
    by code_simp
  from named_request_without_store_rejected
         [OF a b c, of scenario_python scenario_decodes_json scenario_env 0 fresh_id
            scenario_ledger "Some ''application/json''"]
       a b c
  show ?thesis by (simp add: h)
qed

text \<open>
  Against claim C4 as stated: a request that supplies the empty string as pet name, with
  no store, passes the validator; the purchase runs, three requests reach inventory 1 and
  the ledger receives a record.
\<close>

theorem empty_name_without_store_is_processed:
  "validate_pet_name_requires_store (ana\<lparr>req_pet_name := Some []\<rparr>) =
     Inr (ana\<lparr>req_pet_name := Some []\<rparr>) \<and>
   post_purchases scenario_python scenario_decodes_json scenario_env 0 fresh_id scenario_ledger
       (Some ''application/json'') (Some (ana\<lparr>req_pet_name := Some []\<rparr>)) =
     (Inr (Created \<lparr>resp_purchaser = ''Ana'', resp_pet_type = ''Poodle'', resp_store = 1,
                    resp_pet_name = ''Jamie'',
                    resp_purchase_id = ''64b7f3a2c1d4e5f6a7b8c902''\<rparr>),
      [GET_pet_types 1, GET_pets 1 poodle_id, DELETE_pet 1 poodle_id ''Jamie''],
      scenario_ledger\<lparr>docs := docs scenario_ledger @
         [\<lparr>doc_id = fresh_id, doc_purchaser = ''Ana'', doc_pet_type = ''Poodle'',
           doc_store = 1\<rparr>]\<rparr>)"
  by code_simp


lemma matches_iff:
  "matches \<lparr>q_store = store, q_pet_type = pet_type, q_purchaser = purchaser, q_id = qid\<rparr> =
     (\<lambda>d. (\<forall>s. store = Some s \<longrightarrow> doc_store d = s) \<and>
          (\<forall>t. pet_type = Some t \<longrightarrow> doc_pet_type d = t) \<and>
          (\<forall>p. purchaser = Some p \<longrightarrow> doc_purchaser d = p) \<and>
          (\<forall>i. qid = Some i \<longrightarrow> doc_id d = i))"
  by (rule ext) (auto simp: matches_def split: option.splits)

lemma router_found:
  "pets_router_get_pet regex_ci parse_id db pet_type_id name = Response 200 (Some pet) \<Longrightarrow>
   \<exists>d\<in>set (pets_collection db).
      pd_pet_type_id d = pet_type_id \<and> regex_ci name (pd_name d) \<and> pet = pet_response d"
  by (auto simp: pets_router_get_pet_def PetService_get_pet_def
        MongoStore_get_pet_case_insensitive_def find_Some_iff
        split: option.splits sum.splits prod.splits)

text \<open>
  Claim C6, as amended. For a configured store \<open>get_pet\<close> sends one GET to the URL made
  by pasting the type id and the name, unescaped, into the path. It returns the body of
  a response with status 200 and \<open>None\<close> for every other status; when no response
  arrives it raises. It compares no names. When the backend's outcome for that URL is the
  one the inventory service's handler computes for the path parameters it took from the
  URL, whatever they are, a returned pet is a stored pet of that type id whose name
  passes the service's case-insensitive filter for that name.
\<close>

theorem get_pet_returns_backend_answer:
  assumes "PET_STORE_URLS store = Some base"
  shows "(\<forall>status_code body.
            env GET (pet_url base (fstring py pet_type_id) (fstring py name)) =
              Response status_code body \<and> status_code \<noteq> 200 \<longrightarrow>
            get_pet py env store pet_type_id name =
              (Inr JNull, [GET_pet store (fstring py pet_type_id) (fstring py name)])) \<and>
         (\<forall>v. env GET (pet_url base (fstring py pet_type_id) (fstring py name)) =
              Response 200 (Some v) \<longrightarrow>
            get_pet py env store pet_type_id name =
              (Inr v, [GET_pet store (fstring py pet_type_id) (fstring py name)])) \<and>
         (env GET (pet_url base (fstring py pet_type_id) (fstring py name)) = NoResponse \<longrightarrow>
            get_pet py env store pet_type_id name =
              (Inl TransportError, [GET_pet store (fstring py pet_type_id) (fstring py name)])) \<and>
         (\<forall>regex_ci parse_id db path_id path_name pet.
            env GET (pet_url base (fstring py pet_type_id) (fstring py name)) =
              pets_router_get_pet regex_ci parse_id db path_id path_name \<and>
            fst (get_pet py env store pet_type_id name) = Inr pet \<and> pet \<noteq> JNull \<longrightarrow>
            (\<exists>d\<in>set (pets_collection db).
               pd_pet_type_id d = path_id \<and> regex_ci path_name (pd_name d) \<and>
               pet = pet_response d))"
proof -
  let ?url = "pet_url base (fstring py pet_type_id) (fstring py name)"
  let ?log = "[GET_pet store (fstring py pet_type_id) (fstring py name)]"
  have a: "\<forall>status_code body. env GET ?url = Response status_code body \<and> status_code \<noteq> 200 \<longrightarrow>
            get_pet py env store pet_type_id name = (Inr JNull, ?log)"
    using assms by (simp add: get_pet_def)
  have b: "\<forall>v. env GET ?url = Response 200 (Some v) \<longrightarrow>
            get_pet py env store pet_type_id name = (Inr v, ?log)"
    using assms by (simp add: get_pet_def)
  have c: "env GET ?url = NoResponse \<longrightarrow>
            get_pet py env store pet_type_id name = (Inl TransportError, ?log)"
    using assms by (simp add: get_pet_def)
  have d: "\<forall>regex_ci parse_id db path_id path_name pet.
            env GET ?url = pets_router_get_pet regex_ci parse_id db path_id path_name \<and>
            fst (get_pet py env store pet_type_id name) = Inr pet \<and> pet \<noteq> JNull \<longrightarrow>
            (\<exists>d\<in>set (pets_collection db).
               pd_pet_type_id d = path_id \<and> regex_ci path_name (pd_name d) \<and>
               pet = pet_response d)"
  proof (intro allI impI)
    fix regex_ci parse_id db path_id path_name pet
    assume h: "env GET ?url = pets_router_get_pet regex_ci parse_id db path_id path_name \<and>
            fst (get_pet py env store pet_type_id name) = Inr pet \<and> pet \<noteq> JNull"
    then have e: "env GET ?url = pets_router_get_pet regex_ci parse_id db path_id path_name"
      and f: "fst (get_pet py env store pet_type_id name) = Inr pet" and n: "pet \<noteq> JNull"
      by simp_all
    from f n assms have "env GET ?url = Response 200 (Some pet)"
      by (auto simp: get_pet_def split: http_outcome.splits if_splits option.splits)
    with e have "pets_router_get_pet regex_ci parse_id db path_id path_name =
                   Response 200 (Some pet)"
      by simp
    then show "\<exists>d\<in>set (pets_collection db).
               pd_pet_type_id d = path_id \<and> regex_ci path_name (pd_name d) \<and>
               pet = pet_response d"
      by (rule router_found)
  qed
  show ?thesis
    apply (intro conjI)
       apply (rule a)
      apply (rule b)
     apply (rule c)
    apply (rule d)
    done
qed

theorem get_pet_returns_backend_answer_witness:
  "PET_STORE_URLS 1 = Some store1 \<and>
   scenario_env GET (pet_url store1 (fstring scenario_python (JStr poodle_id))
                       (fstring scenario_python (JStr ''JAMIE''))) =
     pets_router_get_pet scenario_regex_ci scenario_parse_id scenario_inventory
       poodle_id ''JAMIE'' \<and>
   fst (get_pet scenario_python scenario_env 1 (JStr poodle_id) (JStr ''JAMIE'')) = Inr jamie \<and>
   jamie \<noteq> JNull \<and>
   (\<exists>d. d \<in> set (pets_collection scenario_inventory) \<and> pd_pet_type_id d = poodle_id \<and>
        scenario_regex_ci ''JAMIE'' (pd_name d) \<and> jamie = pet_response d) \<and>
   PET_STORE_URLS 2 = Some store2 \<and>
   scenario_env GET (pet_url store2 (fstring scenario_python (JStr poodle_id))
                       (fstring scenario_python (JStr ''Jamie''))) =
     Response 404 (Some (JObj [(''error'', JStr ''Not found'')])) \<and>
   get_pet scenario_python scenario_env 2 (JStr poodle_id) (JStr ''Jamie'') =
     (Inr JNull, [GET_pet 2 poodle_id ''Jamie''])"
proof -
  have u: "PET_STORE_URLS 1 = Some store1" and u2: "PET_STORE_URLS 2 = Some store2"
    by code_simp+
  have a: "scenario_env GET (pet_url store1 (fstring scenario_python (JStr poodle_id))
                       (fstring scenario_python (JStr ''JAMIE''))) =
     pets_router_get_pet scenario_regex_ci scenario_parse_id scenario_inventory
       poodle_id ''JAMIE''"
    by code_simp
  have f: "fst (get_pet scenario_python scenario_env 1 (JStr poodle_id) (JStr ''JAMIE'')) =
             Inr jamie"
    by code_simp
  have n: "jamie \<noteq> JNull"
    by (simp add: jamie_def)
  have m: "scenario_env GET (pet_url store2 (fstring scenario_python (JStr poodle_id))
                       (fstring scenario_python (JStr ''Jamie''))) =
     Response 404 (Some (JObj [(''error'', JStr ''Not found'')]))"
    by code_simp
  note t = get_pet_returns_backend_answer
             [OF u, of scenario_env scenario_python "JStr poodle_id" "JStr ''JAMIE''"]
  note t2 = get_pet_returns_backend_answer
             [OF u2, of scenario_env scenario_python "JStr poodle_id" "JStr ''Jamie''"]
  from t [THEN conjunct2, THEN conjunct2, THEN conjunct2, rule_format,
          of scenario_regex_ci scenario_parse_id scenario_inventory poodle_id "''JAMIE''" jamie]
       a f n
  have e: "\<exists>d. d \<in> set (pets_collection scenario_inventory) \<and> pd_pet_type_id d = poodle_id \<and>
        scenario_regex_ci ''JAMIE'' (pd_name d) \<and> jamie = pet_response d"
    by blast
  from t2 [THEN conjunct1, rule_format,
           of 404 "Some (JObj [(''error'', JStr ''Not found'')])"] m
  have q: "get_pet scenario_python scenario_env 2 (JStr poodle_id) (JStr ''Jamie'') =
     (Inr JNull, [GET_pet 2 poodle_id ''Jamie''])"
    by (simp add: fstring_def)
  from u a f n e u2 m q show ?thesis by blast
qed

text \<open>
  Against claim C6 as stated: inventory 1 stores the poodle "Jamie"; asked for "jamie",
  \<open>get_pet\<close> returns that pet although the requested name differs from the stored one in
  the case of a letter. And when no response arrives, \<open>get_pet\<close> raises instead of
  returning \<open>None\<close>.
\<close>

theorem get_pet_ignores_letter_case:
  "scenario_env GET (pet_url store1 poodle_id ''jamie'') =
     pets_router_get_pet scenario_regex_ci scenario_parse_id scenario_inventory
       poodle_id ''jamie'' \<and>
   get_pet scenario_python scenario_env 1 (JStr poodle_id) (JStr ''jamie'') =
     (Inr (JObj [(''name'', JStr ''Jamie''), (''birthdate'', JStr ''24-10-2023''),
                 (''picture'', JStr ''NA'')]),
      [GET_pet 1 poodle_id ''jamie'']) \<and>
   ''jamie'' \<noteq> ''Jamie'' \<and>
   get_pet scenario_python silent_env 1 (JStr poodle_id) (JStr ''jamie'') =
     (Inl TransportError, [GET_pet 1 poodle_id ''jamie''])"
  by code_simp

text \<open>
  Claim C8. When the purchase-id filter is a string that the identifier parser rejects,
  \<open>get_transactions\<close> returns the empty list and raises nothing, whatever the other
  filters are and whatever the ledger holds, reachable or not.
\<close>

theorem unparsable_purchase_id_yields_empty:
  assumes "parse_id p = None"
  shows "get_transactions parse_id coll store pet_type purchaser (Some p) = Inr []"
  using assms by (simp add: get_transactions_def)

theorem unparsable_purchase_id_yields_empty_witness:
  "scenario_parse_id ''not-an-id'' = None \<and>
   get_transactions scenario_parse_id scenario_ledger (Some 2) None (Some ''Bo'')
     (Some ''not-an-id'') = Inr []"
proof -
  have h: "scenario_parse_id ''not-an-id'' = None"
    by code_simp
  from unparsable_purchase_id_yields_empty
         [of scenario_parse_id "''not-an-id''" scenario_ledger "Some 2" None "Some ''Bo''"] h
  show ?thesis by simp
qed

text \<open>
  Claim C9, as amended. A request whose \<open>store\<close> parameter is present and is no integer
  is answered by the validation handler (415, or 400 under a JSON content type) before
  the header is looked at, whatever the ledger is. For every other request: when the
  \<open>OwnerPC\<close> header is absent or differs from the secret, the answer is 401 whatever
  the ledger is, also a ledger that cannot be reached and would raise on any access;
  when the header equals the secret and the ledger answers, the reply is the status-200
  listing of the stored transactions that agree with every supplied filter, and the
  empty listing for an unparsable purchase id.
\<close>

theorem transactions_route_gate:
  "(validate_store_param parse_int store = None \<longrightarrow>
      GET_transactions parse_int parse_id coll header ownerpc store pet_type purchaser
        purchase_id = Inr (validation_exception_handler header)) \<and>
   (\<forall>s. validate_store_param parse_int store = Some s \<and> ownerpc \<noteq> Some OWNER_PC_SECRET \<longrightarrow>
      GET_transactions parse_int parse_id coll header ownerpc store pet_type purchaser
        purchase_id = Inr (JSONResponse 401 ''error'' ''unauthorized'')) \<and>
   (\<forall>s. validate_store_param parse_int store = Some s \<and> ownerpc = Some OWNER_PC_SECRET \<and>
        reachable coll \<and> purchase_id = None \<longrightarrow>
      GET_transactions parse_int parse_id coll header ownerpc store pet_type purchaser
        purchase_id =
        Inr (Listing (map to_transaction
          (filter (\<lambda>d. (\<forall>x. s = Some x \<longrightarrow> doc_store d = x) \<and>
                       (\<forall>t. pet_type = Some t \<longrightarrow> doc_pet_type d = t) \<and>
                       (\<forall>p. purchaser = Some p \<longrightarrow> doc_purchaser d = p))
             (docs coll))))) \<and>
   (\<forall>s p i. validate_store_param parse_int store = Some s \<and> ownerpc = Some OWNER_PC_SECRET \<and>
        reachable coll \<and> purchase_id = Some p \<and> parse_id p = Some i \<longrightarrow>
      GET_transactions parse_int parse_id coll header ownerpc store pet_type purchaser
        purchase_id =
        Inr (Listing (map to_transaction
          (filter (\<lambda>d. (\<forall>x. s = Some x \<longrightarrow> doc_store d = x) \<and>
                       (\<forall>t. pet_type = Some t \<longrightarrow> doc_pet_type d = t) \<and>
                       (\<forall>p. purchaser = Some p \<longrightarrow> doc_purchaser d = p) \<and>
                       doc_id d = i)
             (docs coll))))) \<and>
   (\<forall>s p. validate_store_param parse_int store = Some s \<and> ownerpc = Some OWNER_PC_SECRET \<and>
        purchase_id = Some p \<and> parse_id p = None \<longrightarrow>
      GET_transactions parse_int parse_id coll header ownerpc store pet_type purchaser
        purchase_id = Inr (Listing [])) \<and>
   status_of (JSONResponse 401 ''error'' ''unauthorized'') = 401 \<and>
   status_of (validation_exception_handler header) \<in> {400, 415} \<and>
   (\<forall>ts. status_of (Listing ts) = 200)"
  by (simp add: GET_transactions_def list_transactions_def get_transactions_def find_docs_def
        matches_iff validation_exception_handler_def)

theorem transactions_route_gate_witness:
  "validate_store_param scenario_parse_int (Some ''2'') = Some (Some 2) \<and>
   Some ''guess'' \<noteq> Some OWNER_PC_SECRET \<and>
   GET_transactions scenario_parse_int scenario_parse_id (scenario_ledger\<lparr>reachable := False\<rparr>)
       None (Some ''guess'') (Some ''2'') None None None =
     Inr (JSONResponse 401 ''error'' ''unauthorized'') \<and>
   GET_transactions scenario_parse_int scenario_parse_id scenario_ledger
       None None (Some ''2'') None None None =
     Inr (JSONResponse 401 ''error'' ''unauthorized'') \<and>
   reachable scenario_ledger \<and>
   GET_transactions scenario_parse_int scenario_parse_id scenario_ledger
       None (Some OWNER_PC_SECRET) (Some ''2'') None None None =
     Inr (Listing [\<lparr>txn_purchaser = ''Bo'', txn_pet_type = ''Siamese'', txn_store = 2,
                    txn_purchase_id = ''64b7f3a2c1d4e5f6a7b8c901''\<rparr>]) \<and>
   validate_store_param scenario_parse_int (Some ''abc'') = None \<and>
   GET_transactions scenario_parse_int scenario_parse_id scenario_ledger
       None (Some OWNER_PC_SECRET) (Some ''abc'') None None None =
     Inr (JSONResponse 415 ''error'' ''Expected application/json media type'')"
proof -
  have v: "validate_store_param scenario_parse_int (Some ''2'') = Some (Some 2)"
    by code_simp
  have w: "validate_store_param scenario_parse_int (Some ''abc'') = None"
    by code_simp
  have g: "Some ''guess'' \<noteq> Some OWNER_PC_SECRET"
    by code_simp
  have n: "None \<noteq> Some OWNER_PC_SECRET"
    by simp
  have r: "reachable scenario_ledger"
    by code_simp
  have d: "docs scenario_ledger =
             [\<lparr>doc_id = ObjectId ''64b7f3a2c1d4e5f6a7b8c901'', doc_purchaser = ''Bo'',
               doc_pet_type = ''Siamese'', doc_store = 2\<rparr>]"
    by (simp add: scenario_ledger_def)
  have h: "validation_exception_handler None =
             JSONResponse 415 ''error'' ''Expected application/json media type''"
    by code_simp
  note t = transactions_route_gate
             [of scenario_parse_int _ scenario_parse_id _ None _ None None None]
  from t [of "Some ''2''" "scenario_ledger\<lparr>reachable := False\<rparr>" "Some ''guess''",
          THEN conjunct2, THEN conjunct1, rule_format, of "Some 2"] v g
  have a: "GET_transactions scenario_parse_int scenario_parse_id
       (scenario_ledger\<lparr>reachable := False\<rparr>) None (Some ''guess'') (Some ''2'') None None None =
     Inr (JSONResponse 401 ''error'' ''unauthorized'')"
    by simp
  from t [of "Some ''2''" scenario_ledger None,
          THEN conjunct2, THEN conjunct1, rule_format, of "Some 2"] v n
  have b: "GET_transactions scenario_parse_int scenario_parse_id scenario_ledger
       None None (Some ''2'') None None None =
     Inr (JSONResponse 401 ''error'' ''unauthorized'')"
    by simp
  from t [of "Some ''2''" scenario_ledger "Some OWNER_PC_SECRET",
          THEN conjunct2, THEN conjunct2, THEN conjunct1, rule_format, of "Some 2"] v r
  have c: "GET_transactions scenario_parse_int scenario_parse_id scenario_ledger
       None (Some OWNER_PC_SECRET) (Some ''2'') None None None =
     Inr (Listing [\<lparr>txn_purchaser = ''Bo'', txn_pet_type = ''Siamese'', txn_store = 2,
                    txn_purchase_id = ''64b7f3a2c1d4e5f6a7b8c901''\<rparr>])"
    by (simp add: d to_transaction_def)
  from t [of "Some ''abc''" scenario_ledger "Some OWNER_PC_SECRET", THEN conjunct1] w
  have e: "GET_transactions scenario_parse_int scenario_parse_id scenario_ledger
       None (Some OWNER_PC_SECRET) (Some ''abc'') None None None =
     Inr (JSONResponse 415 ''error'' ''Expected application/json media type'')"
    by (simp add: h)
  from v g a b r c w e show ?thesis by blast
qed

text \<open>
  Against claim C9 as stated: a request without the header whose \<open>store\<close> parameter is
  \<open>abc\<close> is not answered with 401: validation fails first, and the validation handler
  answers 415.
\<close>

theorem unauthorised_bad_store_is_not_401:
  "validate_store_param scenario_parse_int (Some ''abc'') = None \<and>
   GET_transactions scenario_parse_int scenario_parse_id scenario_ledger
       None None (Some ''abc'') None None None =
     Inr (JSONResponse 415 ''error'' ''Expected application/json media type'') \<and>
   GET_transactions scenario_parse_int scenario_parse_id scenario_ledger
       None None (Some ''abc'') None None None \<noteq>
     Inr (JSONResponse 401 ''error'' ''unauthorized'')"
  by code_simp

text \<open>
  Claim C10. A request whose pet name is the empty string and whose store is absent
  passes the validator unchanged. The locator then probes \<open>[1, 2]\<close> and behaves as for the
  same request without a pet name: same result, same requests, none of them the fetch of
  a named pet, so every candidate comes from the random choice over a listing.
\<close>

theorem empty_pet_name_not_rejected:
  assumes "req_pet_name request = Some []" and "req_store request = None"
  shows "validate_pet_name_requires_store request = Inr request \<and>
         stores_to_check request = [1, 2] \<and>
         find_available_pet py env rnd request =
           find_available_pet py env rnd (request\<lparr>req_pet_name := None\<rparr>) \<and>
         (\<forall>s t n. GET_pet s t n \<notin> set (snd (find_available_pet py env rnd request)))"
proof -
  have nt: "\<not> truthy_str (req_pet_name request)"
    using assms(1) by (simp add: truthy_str_def)
  have a: "validate_pet_name_requires_store request = Inr request"
    using assms by (simp add: validate_pet_name_requires_store_def truthy_str_def)
  have b: "stores_to_check request = [1, 2]"
    using assms(2) by (simp add: stores_to_check_def truthy_int_def)
  have b': "stores_to_check (request\<lparr>req_pet_name := None\<rparr>) = [1, 2]"
    using assms(2) by (simp add: stores_to_check_def truthy_int_def)
  have p: "\<And>s. probe_store py env rnd request s =
                probe_store py env rnd (request\<lparr>req_pet_name := None\<rparr>) s"
    using assms(1)
    by (auto simp: probe_store_def truthy_str_def split: prod.splits sum.splits option.splits)
  have c: "find_available_pet py env rnd request =
           find_available_pet py env rnd (request\<lparr>req_pet_name := None\<rparr>)"
    unfolding find_available_pet_def b b' by (rule loop_cong) (rule p)
  have d: "\<forall>s t n. GET_pet s t n \<notin> set (snd (find_available_pet py env rnd request))"
    unfolding find_available_pet_def
    using loop_calls_from_probes probe_store_no_get_pet [OF nt] by blast
  from a b c d show ?thesis by blast
qed

theorem empty_pet_name_not_rejected_witness:
  "req_pet_name (ana\<lparr>req_pet_name := Some []\<rparr>) = Some [] \<and>
   req_store (ana\<lparr>req_pet_name := Some []\<rparr>) = None \<and>
   validate_pet_name_requires_store (ana\<lparr>req_pet_name := Some []\<rparr>) =
     Inr (ana\<lparr>req_pet_name := Some []\<rparr>) \<and>
   stores_to_check (ana\<lparr>req_pet_name := Some []\<rparr>) = [1, 2] \<and>
   find_available_pet scenario_python scenario_env 0 (ana\<lparr>req_pet_name := Some []\<rparr>) =
     (Inr (Some \<lparr>fp_store = 1, fp_pet_type_id = JStr poodle_id, fp_pet_type_name = ''Poodle'',
                 fp_name = JStr ''Jamie''\<rparr>), [GET_pet_types 1, GET_pets 1 poodle_id])"
proof -
  have a: "req_pet_name (ana\<lparr>req_pet_name := Some []\<rparr>) = Some []"
    by simp
  have b: "req_store (ana\<lparr>req_pet_name := Some []\<rparr>) = None"
    by (simp add: ana_def)
  have f: "find_available_pet scenario_python scenario_env 0 (ana\<lparr>req_pet_name := None\<rparr>) =
     (Inr (Some \<lparr>fp_store = 1, fp_pet_type_id = JStr poodle_id, fp_pet_type_name = ''Poodle'',
                 fp_name = JStr ''Jamie''\<rparr>), [GET_pet_types 1, GET_pets 1 poodle_id])"
    by code_simp
  from empty_pet_name_not_rejected [OF a b, of scenario_python scenario_env 0] a b f
  show ?thesis by simp
qed

end
